theory Spec2Isabelle
  imports Main
begin

section \<open>Computations of the host language\<close>

text \<open>
  The library is TypeScript. Its operations take caller-supplied functions (selectors,
  handlers, thunks), and a function of the host language may do more than return a value:
  it may change state and it may throw. A call is therefore modelled as a computation
  that takes the state before the call and gives the state after it together with either
  the thrown error (\<open>Inl\<close>) or the returned value (\<open>Inr\<close>). Nothing in the library
  catches an error, so a throw ends the enclosing computation (\<open>bind_js\<close>).
\<close>

datatype error = Error string | TypeError string

type_synonym ('s, 'a) js = "'s \<Rightarrow> (error + 'a) \<times> 's"

definition return_js :: "'a \<Rightarrow> ('s, 'a) js" where
  "return_js x = (\<lambda>s. (Inr x, s))"

definition throw_js :: "error \<Rightarrow> ('s, 'a) js" where
  "throw_js err = (\<lambda>s. (Inl err, s))"

definition bind_js :: "('s, 'a) js \<Rightarrow> ('a \<Rightarrow> ('s, 'b) js) \<Rightarrow> ('s, 'b) js" where
  "bind_js m k = (\<lambda>s. case m s of (Inl err, s') \<Rightarrow> (Inl err, s') | (Inr x, s') \<Rightarrow> k x s')"

text \<open>Whether a finished call returned (rather than threw).\<close>

definition returns_normally :: "error + 'a \<Rightarrow> bool" where
  "returns_normally r = (case r of Inl err \<Rightarrow> False | Inr x \<Rightarrow> True)"

text \<open>
  A caller-supplied function that never throws: it computes its result and the next state
  from its argument and the current state.
\<close>

definition returning :: "('a \<Rightarrow> 's \<Rightarrow> 'r \<times> 's) \<Rightarrow> 'a \<Rightarrow> ('s, 'r) js" where
  "returning f x = (\<lambda>s. (Inr (fst (f x s)), snd (f x s)))"



section \<open>Objects of the host language\<close>

text \<open>
  A record is an object. Its own enumerable string-named properties are listed in the
  order in which they were created (for a record written as a literal, the order in which
  its fields are declared); a well-formed record has distinct names. Every field value
  has the one type \<open>'v\<close> (the source types it \<open>any\<close>).
\<close>

type_synonym 'v props = "(string \<times> 'v) list"

text \<open>
  \<open>Object.keys\<close> does not list the names in creation order: the names that are array
  indices (\<open>0\<close>, or decimal digits without a leading zero, below \<open>2^32 - 1\<close>) come
  first, in ascending numeric order, and the other names follow in creation order.
\<close>

definition is_digit :: "char \<Rightarrow> bool" where
  "is_digit c = (c \<in> set ''0123456789'')"

definition digit_value :: "char \<Rightarrow> nat" where
  "digit_value c = length (takeWhile (\<lambda>d. d \<noteq> c) ''0123456789'')"

definition numeric_value :: "string \<Rightarrow> nat" where
  "numeric_value name = foldl (\<lambda>n c. 10 * n + digit_value c) 0 name"

definition is_array_index :: "string \<Rightarrow> bool" where
  "is_array_index name =
     (name \<noteq> [] \<and> list_all is_digit name
      \<and> (if hd name = CHR ''0'' then length name = 1 else True)
      \<and> numeric_value name < 2 ^ 32 - 1)"

definition Object_keys :: "'v props \<Rightarrow> string list" where
  "Object_keys obj =
     (let names = map fst obj
      in sort_key numeric_value (filter is_array_index names)
         @ filter (\<lambda>name. \<not> is_array_index name) names)"

text \<open>\<open>obj[key]\<close> read: \<open>None\<close> is \<open>undefined\<close>.\<close>

definition get_prop :: "'v props \<Rightarrow> string \<Rightarrow> 'v option" where
  "get_prop obj key = map_of obj key"

text \<open>
  The object that the record lifters build starts as \<open>{}\<close>, whose prototype is
  \<open>Object.prototype\<close>, and is written by \<open>result[key] = v\<close>. That assignment
  \<^item> overwrites an own property of that name;
  \<^item> otherwise asks the prototype. \<open>Object.prototype\<close> has one setter, for the name
    \<open>__proto__\<close>: it creates no property; it makes an object value the new prototype of
    \<open>result\<close>, makes \<open>null\<close> remove the prototype, and ignores any other value. For
    every other name \<open>Object.prototype\<close> lets the assignment create an own property;
  \<^item> creates an own property when there is no prototype;
  \<^item> once a field value has become the prototype, does what that value's properties
    say: a read-only property of that name makes the assignment throw a TypeError (the
    module is strict code), a setter runs. What a value of type \<open>'v\<close> does as a
    prototype is the parameter \<open>custom_put\<close>; whether it is an object, \<open>null\<close> or a
    primitive is the parameter \<open>kind\<close>.
\<close>

datatype value_kind = PrimitiveValue | NullValue | ObjectValue

datatype 'v prototype = ObjectPrototype | NullPrototype | Custom 'v

record 'v object =
  own :: "'v props"
  proto :: "'v prototype"

record 'v host =
  kind :: "'v \<Rightarrow> value_kind"
  custom_put :: "'v \<Rightarrow> 'v object \<Rightarrow> string \<Rightarrow> 'v \<Rightarrow> error + 'v object"

definition empty_object :: "'v object" where
  "empty_object = \<lparr>own = [], proto = ObjectPrototype\<rparr>"

fun overwrite :: "'v props \<Rightarrow> string \<Rightarrow> 'v \<Rightarrow> 'v props" where
  "overwrite [] key v = []"
| "overwrite ((k, w) # obj) key v =
     (if k = key then (k, v) # obj else (k, w) # overwrite obj key v)"

definition set_prop :: "'v host \<Rightarrow> 'v object \<Rightarrow> string \<Rightarrow> 'v \<Rightarrow> error + 'v object" where
  "set_prop h obj key v =
     (if key \<in> set (map fst (own obj)) then Inr (obj\<lparr>own := overwrite (own obj) key v\<rparr>)
      else case proto obj of
        ObjectPrototype \<Rightarrow>
          if key = ''__proto__'' then
            (case kind h v of
               ObjectValue \<Rightarrow> Inr (obj\<lparr>proto := Custom v\<rparr>)
             | NullValue \<Rightarrow> Inr (obj\<lparr>proto := NullPrototype\<rparr>)
             | PrimitiveValue \<Rightarrow> Inr obj)
          else Inr (obj\<lparr>own := own obj @ [(key, v)]\<rparr>)
      | NullPrototype \<Rightarrow> Inr (obj\<lparr>own := own obj @ [(key, v)]\<rparr>)
      | Custom p \<Rightarrow> custom_put h p obj key v)"

section \<open>Either core\<close>

text \<open>
  \<open>Right(value)\<close> and \<open>Left(value)\<close> build a frozen object with the two properties
  \<open>type\<close> (the string \<open>right\<close> or \<open>left\<close>) and \<open>value\<close>. The property \<open>value\<close> has type
  \<open>T\<close> under \<open>type = right\<close> and \<open>E\<close> under \<open>type = left\<close>, hence the two selectors.
\<close>

datatype ('e, 't) either = Left (value_left: 'e) | Right (value_right: 't)

fun type :: "('e, 't) either \<Rightarrow> string" where
  "type (Right v) = ''right''"
| "type (Left v) = ''left''"

text \<open>
  \<open>Either.toString\<close> is the template literal \<open>(${this.type} ${this.value})\<close>. A
  template literal converts each value to a string; the conversion of a payload is a call
  like any other (it runs the payload's own \<open>toString\<close> when it has one, and it throws
  a TypeError for a Symbol or an object without a prototype), so it is a parameter that
  is a computation. The tag is a string already.
\<close>

definition toString ::
  "('e \<Rightarrow> ('s, string) js) \<Rightarrow> ('t \<Rightarrow> ('s, string) js) \<Rightarrow> ('e, 't) either \<Rightarrow> ('s, string) js"
where
  "toString render_e render_t this =
     bind_js (case this of Left v \<Rightarrow> render_e v | Right v \<Rightarrow> render_t v)
       (\<lambda>text. return_js (''('' @ type this @ '' '' @ text @ '')''))"

definition isRight :: "('e, 't) either \<Rightarrow> bool" where
  "isRight v = (type v = ''right'')"

definition isLeft :: "('e, 't) either \<Rightarrow> bool" where
  "isLeft v = (type v = ''left'')"

record ('e, 't, 's, 'r) actions =
  right :: "'t \<Rightarrow> ('s, 'r) js"
  left :: "'e \<Rightarrow> ('s, 'r) js"

definition caseOf :: "('e, 't, 's, 'r) actions \<Rightarrow> ('e, 't) either \<Rightarrow> ('s, 'r) js" where
  "caseOf acts input =
     (if isRight input then right acts (value_right input)
      else left acts (value_left input))"

section \<open>Extraction and conversion\<close>



datatype TakeSingleError = Empty | MoreThanOne

definition singleFromArray :: "'t list \<Rightarrow> (TakeSingleError, 't) either" where
  "singleFromArray input =
     (if length input = 0 then Left TakeSingleError.Empty
      else if length input > 1 then Left MoreThanOne
      else Right (input ! 0))"

datatype TakeFirstError = Empty

definition firstFromArray :: "'t list \<Rightarrow> (TakeFirstError, 't) either" where
  "firstFromArray input =
     (if length input > 0 then Right (input ! 0) else Left TakeFirstError.Empty)"


text \<open>
  The two extraction operations throw \<open>new Error(message)\<close>. The message is a template
  literal, built before the error is: the payload is converted to a string first (the
  parameter \<open>render\<close>, a computation as in \<open>toString\<close>), and when that conversion throws,
  its error is the one thrown.
\<close>

definition getRightOrFail :: "('e \<Rightarrow> ('s, string) js) \<Rightarrow> ('e, 't) either \<Rightarrow> ('s, 't) js" where
  "getRightOrFail render input =
     caseOf \<lparr>right = (\<lambda>x. return_js x),
             left = (\<lambda>e. bind_js (render e) (\<lambda>text.
                      throw_js (Error (''Tried to get right out of a left: '' @ text))))\<rparr>
       input"

definition getLeftOrFail :: "('t \<Rightarrow> ('s, string) js) \<Rightarrow> ('e, 't) either \<Rightarrow> ('s, 'e) js" where
  "getLeftOrFail render input =
     caseOf \<lparr>right = (\<lambda>t. bind_js (render t) (\<lambda>text.
                      throw_js (Error (''Tried to get left out of a right: '' @ text)))),
             left = (\<lambda>e. return_js e)\<rparr>
       input"

section \<open>Algebraic operators\<close>

definition map' :: "('t \<Rightarrow> ('s, 'r) js) \<Rightarrow> ('e, 't) either \<Rightarrow> ('s, ('e, 'r) either) js" where
  "map' selector input =
     caseOf \<lparr>right = (\<lambda>v. bind_js (selector v) (\<lambda>r. return_js (Right r))),
             left = (\<lambda>v. return_js (Left v))\<rparr> input"



definition chain' ::
  "('t \<Rightarrow> ('s, ('e, 'r) either) js) \<Rightarrow> ('e, 't) either \<Rightarrow> ('s, ('e, 'r) either) js"
where
  "chain' selector input = caseOf \<lparr>right = selector, left = (\<lambda>v. return_js (Left v))\<rparr> input"

definition alt :: "('e, 't) either \<Rightarrow> ('e, 't) either \<Rightarrow> ('e, 't) either" where
  "alt a b = (if isRight a then a else b)"

text \<open>The second argument of \<open>altLazy\<close> is a thunk: a computation, run by \<open>b()\<close>.\<close>

definition altLazy :: "('e, 't) either \<Rightarrow> ('s, ('e, 't) either) js \<Rightarrow> ('s, ('e, 't) either) js" where
  "altLazy a b = (if isRight a then return_js a else b)"


definition apply' ::
  "('e, 't \<Rightarrow> ('s, 'r) js) either \<Rightarrow> ('e, 't) either \<Rightarrow> ('s, ('e, 'r) either) js"
where
  "apply' func v =
     (if isRight func then map' (value_right func) v
      else return_js (Left (value_left func)))"

text \<open>
  \<open>lift2\<close> and \<open>lift3\<close> return the Left operand itself; the model rebuilds it, since
  the result has another success type. \<open>func(t1.value)(t2.value)\<close> is two calls.
\<close>

definition lift2 ::
  "('t1 \<Rightarrow> ('s, 't2 \<Rightarrow> ('s, 'r) js) js) \<Rightarrow> ('e, 't1) either \<Rightarrow> ('e, 't2) either
     \<Rightarrow> ('s, ('e, 'r) either) js"
where
  "lift2 func t1 t2 =
     (if isLeft t1 then return_js (Left (value_left t1))
      else if isLeft t2 then return_js (Left (value_left t2))
      else bind_js (func (value_right t1)) (\<lambda>g.
           bind_js (g (value_right t2)) (\<lambda>r. return_js (Right r))))"


definition applyFirst :: "('e, 't1) either \<Rightarrow> ('e, 't2) either \<Rightarrow> ('e, 't1) either" where
  "applyFirst first second =
     (if isLeft first then first
      else if isLeft second then Left (value_left second)
      else first)"

definition applySecond :: "('e, 't1) either \<Rightarrow> ('e, 't2) either \<Rightarrow> ('e, 't2) either" where
  "applySecond first second =
     (if isLeft first then Left (value_left first)
      else if isLeft second then second
      else second)"

definition of' :: "'t \<Rightarrow> ('e, 't) either" where
  "of' = Right"

section \<open>Record lifters\<close>

text \<open>
  The loops run over \<open>Object.keys(input)\<close>. \<open>isLeft(undefined)\<close> reads a property of
  \<open>undefined\<close> and throws a TypeError.
\<close>

fun liftProps_loop ::
  "'v host \<Rightarrow> ('e, 'v) either props \<Rightarrow> string list \<Rightarrow> 'v object
     \<Rightarrow> error + ('e, 'v object) either"
where
  "liftProps_loop h input [] result = Inr (Right result)"
| "liftProps_loop h input (key # keys) result =
     (case get_prop input key of
        None \<Rightarrow> Inl (TypeError ''Cannot read properties of undefined'')
      | Some v \<Rightarrow>
          if isLeft v then Inr (Left (value_left v))
          else (case set_prop h result key (value_right v) of
                  Inl err \<Rightarrow> Inl err
                | Inr result' \<Rightarrow> liftProps_loop h input keys result'))"

definition liftProps :: "'v host \<Rightarrow> ('e, 'v) either props \<Rightarrow> error + ('e, 'v object) either" where
  "liftProps h input = liftProps_loop h input (Object_keys input) empty_object"

fun liftPropsCollect_loop ::
  "'v host \<Rightarrow> ('e, 'v) either props \<Rightarrow> string list \<Rightarrow> 'v object \<Rightarrow> 'e list
     \<Rightarrow> error + 'v object \<times> 'e list"
where
  "liftPropsCollect_loop h input [] result errors = Inr (result, errors)"
| "liftPropsCollect_loop h input (key # keys) result errors =
     (case get_prop input key of
        None \<Rightarrow> Inl (TypeError ''Cannot read properties of undefined'')
      | Some v \<Rightarrow>
          if isLeft v then liftPropsCollect_loop h input keys result (errors @ [value_left v])
          else if length errors = 0 then
            (case set_prop h result key (value_right v) of
               Inl err \<Rightarrow> Inl err
             | Inr result' \<Rightarrow> liftPropsCollect_loop h input keys result' errors)
          else liftPropsCollect_loop h input keys result errors)"

definition liftPropsCollect ::
  "'v host \<Rightarrow> ('e, 'v) either props \<Rightarrow> error + ('e list, 'v object) either"
where
  "liftPropsCollect h input =
     (case liftPropsCollect_loop h input (Object_keys input) empty_object [] of
        Inl err \<Rightarrow> Inl err
      | Inr (result, errors) \<Rightarrow>
          Inr (if length errors = 0 then Right result else Left errors))"

text \<open>
  What the record lifters are meant to compute, over a list of fields in some order: the
  fields unwrapped, the first Left field, and the payloads of all Left fields. The order
  in which the code takes the fields is \<open>enumerated\<close>: the fields as \<open>Object.keys\<close>
  lists them.
\<close>

definition unwrapped :: "('e, 'v) either props \<Rightarrow> 'v props" where
  "unwrapped input = map (\<lambda>(k, v). (k, value_right v)) input"

definition first_left :: "('e, 'v) either props \<Rightarrow> ('e, 'v) either option" where
  "first_left input = find isLeft (map snd input)"

definition all_lefts :: "('e, 'v) either props \<Rightarrow> 'e list" where
  "all_lefts input = map value_left (filter isLeft (map snd input))"

definition enumerated :: "'v props \<Rightarrow> 'v props" where
  "enumerated obj =
     sort_key (\<lambda>p. numeric_value (fst p)) (filter (\<lambda>p. is_array_index (fst p)) obj)
     @ filter (\<lambda>p. \<not> is_array_index (fst p)) obj"

section \<open>Example values\<close>

text \<open>
  Payloads that are strings or Symbols, with the string conversion of the language: a
  string converts to itself, a Symbol throws.
\<close>

datatype printable = Text string | Symbol string

fun ToString :: "printable \<Rightarrow> ('s, string) js" where
  "ToString (Text t) = return_js t"
| "ToString (Symbol d) = throw_js (TypeError ''Cannot convert a Symbol value to a string'')"

text \<open>Field values that are all primitives (numbers, strings): none can be a prototype.\<close>

definition primitive_host :: "'v host" where
  "primitive_host = \<lparr>kind = (\<lambda>v. PrimitiveValue), custom_put = (\<lambda>p obj key v. Inr obj)\<rparr>"


section \<open>Handlers that record their calls\<close>

datatype ('e, 't) call = RightHandler 't | LeftHandler 'e

definition traced_actions ::
  "('t \<Rightarrow> 'r) \<Rightarrow> ('e \<Rightarrow> 'r) \<Rightarrow> ('e, 't, ('e, 't) call list, 'r) actions"
where
  "traced_actions f g =
     \<lparr>right = (\<lambda>v log. (Inr (f v), log @ [RightHandler v])),
      left = (\<lambda>v log. (Inr (g v), log @ [LeftHandler v]))\<rparr>"

section \<open>Basic facts\<close>

lemma isRight_simps: "isRight (Right v) = True" "isRight (Left w) = False"
  by (simp_all add: isRight_def)

lemma isLeft_simps: "isLeft (Right v) = False" "isLeft (Left w) = True"
  by (simp_all add: isLeft_def)

lemma caseOf_Right: "caseOf acts (Right v) = right acts v"
  by (simp add: caseOf_def isRight_simps)

lemma caseOf_Left: "caseOf acts (Left w) = left acts w"
  by (simp add: caseOf_def isRight_simps)

lemma bind_return_left: "bind_js (return_js x) k = k x"
  by (simp add: bind_js_def return_js_def)

lemma bind_return_right: "bind_js m return_js = m"
  by (auto simp: bind_js_def return_js_def fun_eq_iff split: prod.splits sum.splits)

lemma bind_assoc: "bind_js (bind_js m k) h = bind_js m (\<lambda>x. bind_js (k x) h)"
  by (auto simp: bind_js_def fun_eq_iff split: prod.splits sum.splits)

lemma bind_throw: "bind_js (throw_js err) k = throw_js err"
  by (simp add: bind_js_def throw_js_def)

lemma map_Right: "map' f (Right x) = bind_js (f x) (\<lambda>r. return_js (Right r))"
  by (simp add: map'_def caseOf_Right)

lemma map_Left: "map' f (Left x) = return_js (Left x)"
  by (simp add: map'_def caseOf_Left)

section \<open>Dispatch\<close>

text \<open>
  Claim C2. For every Either value \<open>e\<close>, exactly one of \<open>isRight e\<close> and \<open>isLeft e\<close>
  holds, and \<open>caseOf acts e\<close> is one call of the handler of \<open>e\<close>'s variant on \<open>e\<close>'s
  payload: as computations (result, thrown error and effect on the state) the two are
  equal, whatever the handlers do. With handlers that append every call to a log, the
  log grows by exactly the one call of the matching handler, and the result is that
  handler's result.
\<close>

theorem caseOf_dispatch:
  "(isRight e \<noteq> isLeft e)
   \<and> isRight e = (case e of Right v \<Rightarrow> True | Left w \<Rightarrow> False)
   \<and> caseOf acts e = (case e of Right v \<Rightarrow> right acts v | Left w \<Rightarrow> left acts w)
   \<and> caseOf (traced_actions f g) (Right v) log = (Inr (f v), log @ [RightHandler v])
   \<and> caseOf (traced_actions f g) (Left w) log = (Inr (g w), log @ [LeftHandler w])"
proof -
  have excl: "isRight e \<noteq> isLeft e"
    by (cases e) (simp_all add: isRight_simps isLeft_simps)
  have tag: "isRight e = (case e of Right v \<Rightarrow> True | Left w \<Rightarrow> False)"
    by (cases e) (simp_all add: isRight_simps)
  have disp: "caseOf acts e = (case e of Right v \<Rightarrow> right acts v | Left w \<Rightarrow> left acts w)"
    by (cases e) (simp_all add: caseOf_Right caseOf_Left)
  have tr: "caseOf (traced_actions f g) (Right v) log = (Inr (f v), log @ [RightHandler v])"
    by (simp add: caseOf_Right traced_actions_def)
  have tl: "caseOf (traced_actions f g) (Left w) log = (Inr (g w), log @ [LeftHandler w])"
    by (simp add: caseOf_Left traced_actions_def)
  from excl tag disp tr tl show ?thesis by blast
qed

section \<open>Short-circuit order\<close>

text \<open>
  Claim C4. \<open>lift2 f (Left a) y\<close> returns \<open>Left a\<close> and \<open>lift2 f (Right x) (Left b)\<close>
  returns \<open>Left b\<close>, in both cases without calling \<open>f\<close> (the state is unchanged and
  nothing is thrown, whatever \<open>f\<close> would do); \<open>altLazy (Right x) thunk\<close> returns
  \<open>Right x\<close> without running the thunk.
\<close>

theorem short_circuit_order:
  "lift2 f (Left a) y s = (Inr (Left a), s)
   \<and> lift2 f (Right x) (Left b) s = (Inr (Left b), s)
   \<and> altLazy (Right x) thunk s = (Inr (Right x), s)"
  by (simp add: lift2_def altLazy_def isLeft_simps isRight_simps return_js_def)

section \<open>Functor and monad laws\<close>

text \<open>
  Equality of Either values is structural (the library builds a new object for every
  result). The identity function is \<open>return_js\<close>; \<open>x => g(f(x))\<close> calls \<open>f\<close> and then
  \<open>g\<close>.
\<close>

lemma map_compose: "bind_js (map' f e) (map' g) = map' (\<lambda>x. bind_js (f x) g) e"
  by (cases e) (simp_all add: map_Right map_Left bind_assoc bind_return_left)

text \<open>
  Claim C5. \<open>map(identity)(e)\<close> is \<open>e\<close> for every \<open>e\<close>; mapping \<open>f\<close> and then \<open>g\<close> over
  a Right value is mapping their composition over it; and \<open>map(f)(Left(y))\<close> is
  \<open>Left(y)\<close> for every \<open>f\<close>, which is not called.
\<close>

theorem functor_laws:
  "map' return_js e = return_js e
   \<and> bind_js (map' f (Right x)) (map' g) = map' (\<lambda>x. bind_js (f x) g) (Right x)
   \<and> map' f (Left y) = return_js (Left y)"
proof -
  have ident: "map' return_js e = return_js e"
    by (cases e) (simp_all add: map_Right map_Left bind_return_left)
  have comp: "bind_js (map' f (Right x)) (map' g) = map' (\<lambda>x. bind_js (f x) g) (Right x)"
    by (simp add: map_Right bind_assoc bind_return_left)
  have keep: "map' f (Left y) = return_js (Left y)"
    by (rule map_Left)
  from ident comp keep show ?thesis by blast
qed

text \<open>
  Claim C6. \<open>chain(f)(of(x))\<close> is the call \<open>f(x)\<close>, and \<open>chain(of)(e)\<close> is \<open>e\<close>.
\<close>

theorem monad_identity_laws:
  "chain' f (of' x) = f x \<and> chain' (\<lambda>x. return_js (of' x)) e = return_js e"
proof -
  have l: "chain' f (of' x) = f x"
    by (simp add: chain'_def of'_def caseOf_Right)
  have r: "chain' (\<lambda>x. return_js (of' x)) e = return_js e"
    by (cases e) (simp_all add: chain'_def of'_def caseOf_Right caseOf_Left)
  from l r show ?thesis by blast
qed

section \<open>Collection lifters\<close>

text \<open>
  Claim C7. \<open>singleFromArray\<close> gives Right of the only element of an array of length 1,
  \<open>Left Empty\<close> for length 0 and \<open>Left MoreThanOne\<close> for a longer array;
  \<open>firstFromArray\<close> gives Right of the first element of a non-empty array and
  \<open>Left Empty\<close> for the empty one.
\<close>

theorem cardinality_lifters:
  "singleFromArray seq =
     (if length seq = 1 then Right (seq ! 0)
      else if length seq = 0 then Left TakeSingleError.Empty
      else Left MoreThanOne)
   \<and> singleFromArray [x] = Right x
   \<and> firstFromArray seq = (if seq \<noteq> [] then Right (seq ! 0) else Left TakeFirstError.Empty)
   \<and> firstFromArray (x # xs) = Right x"
  by (cases seq) (auto simp: singleFromArray_def firstFromArray_def)

section \<open>Failing extraction\<close>

text \<open>
  Claim C8 as stated (for every payload, an error whose message holds the payload's
  rendering) fails: for a Symbol payload the string conversion inside the template
  literal throws a TypeError, so no message is built and no \<open>Error\<close> is thrown.
\<close>

theorem getRightOrFail_counterexample:
  "getRightOrFail ToString (Left (Symbol ''s'') :: (printable, int) either) ()
     = (Inl (TypeError ''Cannot convert a Symbol value to a string''), ())
   \<and> (\<forall>text s'. getRightOrFail ToString (Left (Symbol ''s'') :: (printable, int) either) ()
         \<noteq> (Inl (Error (''Tried to get right out of a left: '' @ text)), s'))"
  by (simp add: getRightOrFail_def caseOf_Left bind_js_def throw_js_def)

text \<open>
  Claim C8, amended. \<open>getRightOrFail (Right x)\<close> returns \<open>x\<close> and converts nothing.
  \<open>getRightOrFail (Left e)\<close> never returns: it first converts \<open>e\<close> to a string; when
  the conversion throws, that error is thrown; when it returns a text, an \<open>Error\<close> (the
  plain error of the language; the code has no other error class) is thrown whose message
  is \<open>Tried to get right out of a left: \<close> followed by that text. When the payload is
  itself an Either, the conversion is \<open>toString\<close>.
\<close>

theorem getRightOrFail_behaviour:
  "getRightOrFail render (Right x) s = (Inr x, s)
   \<and> getRightOrFail render (Left e) s =
       (case render e s of
          (Inl err, s') \<Rightarrow> (Inl err, s')
        | (Inr text, s') \<Rightarrow>
            (Inl (Error (''Tried to get right out of a left: '' @ text)), s'))
   \<and> \<not> returns_normally (fst (getRightOrFail render (Left e) s))
   \<and> getRightOrFail (returning r) (Left e) s =
       (Inl (Error (''Tried to get right out of a left: '' @ fst (r e s))), snd (r e s))
   \<and> getRightOrFail (toString (returning r1) (returning r2)) (Left (Left y)) s =
       (Inl (Error (''Tried to get right out of a left: (left '' @ fst (r1 y s) @ '')'')),
        snd (r1 y s))"
proof -
  have ok: "getRightOrFail render (Right x) s = (Inr x, s)"
    by (simp add: getRightOrFail_def caseOf_Right return_js_def)
  have fail: "getRightOrFail render (Left e) s =
       (case render e s of
          (Inl err, s') \<Rightarrow> (Inl err, s')
        | (Inr text, s') \<Rightarrow>
            (Inl (Error (''Tried to get right out of a left: '' @ text)), s'))"
    by (simp add: getRightOrFail_def caseOf_Left bind_js_def throw_js_def
        split: prod.splits sum.splits)
  have never: "\<not> returns_normally (fst (getRightOrFail render (Left e) s))"
    by (simp add: fail returns_normally_def split: prod.splits sum.splits)
  have conv: "getRightOrFail (returning r) (Left e) s =
       (Inl (Error (''Tried to get right out of a left: '' @ fst (r e s))), snd (r e s))"
    by (simp add: getRightOrFail_def caseOf_Left bind_js_def throw_js_def returning_def)
  have nested: "getRightOrFail (toString (returning r1) (returning r2)) (Left (Left y)) s =
       (Inl (Error (''Tried to get right out of a left: (left '' @ fst (r1 y s) @ '')'')),
        snd (r1 y s))"
    by (simp add: getRightOrFail_def caseOf_Left toString_def bind_js_def throw_js_def
        returning_def return_js_def)
  from ok fail never conv nested show ?thesis by blast
qed

section \<open>The order of the keys\<close>

lemma map_insort_key:
  "map f (insort_key (\<lambda>x. g (f x)) a xs) = insort_key g (f a) (map f xs)"
  by (induction xs) simp_all

lemma map_sort_key: "map f (sort_key (\<lambda>x. g (f x)) xs) = sort_key g (map f xs)"
  by (induction xs) (simp_all add: map_insort_key)

lemma Object_keys_enumerated: "Object_keys obj = map fst (enumerated obj)"
  by (simp add: Object_keys_def enumerated_def map_sort_key filter_map comp_def)

lemma set_enumerated: "set (enumerated obj) = set obj"
  by (auto simp: enumerated_def)

lemma distinct_enumerated:
  assumes "distinct (map fst obj)"
  shows "distinct (map fst (enumerated obj))"
proof -
  have "distinct (Object_keys obj)"
    using assms by (auto simp: Object_keys_def Let_def)
  then show ?thesis by (simp add: Object_keys_enumerated)
qed

lemma enumerated_plain_names:
  "list_all (\<lambda>p. \<not> is_array_index (fst p)) obj \<Longrightarrow> enumerated obj = obj"
  by (simp add: enumerated_def list_all_iff)

section \<open>The record lifters compute what they are meant to\<close>

lemma get_prop_mem:
  "distinct (map fst input) \<Longrightarrow> (k, v) \<in> set input \<Longrightarrow> get_prop input k = Some v"
  by (simp add: get_prop_def)

lemma set_prop_fresh:
  "key \<notin> set (map fst (own obj)) \<Longrightarrow> proto obj = ObjectPrototype \<Longrightarrow> key \<noteq> ''__proto__'' \<Longrightarrow>
   set_prop h obj key v = Inr (obj\<lparr>own := own obj @ [(key, v)]\<rparr>)"
  by (simp add: set_prop_def)

text \<open>
  The fail-fast loop, started anywhere in the key list with the fields before it already
  unwrapped into \<open>result\<close>.
\<close>

lemma liftProps_loop_spec:
  assumes d: "distinct (map fst input)"
  shows "set rest \<subseteq> set input \<Longrightarrow> distinct (map fst (own result) @ map fst rest) \<Longrightarrow>
         ''__proto__'' \<notin> set (map fst rest) \<Longrightarrow> proto result = ObjectPrototype \<Longrightarrow>
         liftProps_loop h input (map fst rest) result =
           Inr (case first_left rest of
                  Some l \<Rightarrow> Left (value_left l)
                | None \<Rightarrow> Right (result\<lparr>own := own result @ unwrapped rest\<rparr>))"
proof (induction rest arbitrary: result)
  case Nil
  then show ?case by (simp add: first_left_def unwrapped_def)
next
  case (Cons p rest)
  obtain k v where p: "p = (k, v)" by (cases p)
  from Cons.prems(1) p have "(k, v) \<in> set input" by simp
  then have look: "get_prop input k = Some v"
    by (rule get_prop_mem [OF d])
  show ?case
  proof (cases "isLeft v")
    case True
    with look p show ?thesis by (simp add: first_left_def)
  next
    case False
    let ?next = "result\<lparr>own := own result @ [(k, value_right v)]\<rparr>"
    from Cons.prems(2) p have fresh: "k \<notin> set (map fst (own result))" by simp
    from Cons.prems(3) p have plain: "k \<noteq> ''__proto__''" by auto
    have step: "set_prop h result k (value_right v) = Inr ?next"
      using fresh Cons.prems(4) plain by (rule set_prop_fresh)
    have sub: "set rest \<subseteq> set input"
      using Cons.prems(1) by simp
    have dist: "distinct (map fst (own ?next) @ map fst rest)"
      using Cons.prems(2) p by simp
    have rest_plain: "''__proto__'' \<notin> set (map fst rest)"
      using Cons.prems(3) by simp
    have pr: "proto ?next = ObjectPrototype"
      using Cons.prems(4) by simp
    have "liftProps_loop h input (map fst rest) ?next =
            Inr (case first_left rest of
                   Some l \<Rightarrow> Left (value_left l)
                 | None \<Rightarrow> Right (?next\<lparr>own := own ?next @ unwrapped rest\<rparr>))"
      by (rule Cons.IH [OF sub dist rest_plain pr])
    with False look p step show ?thesis
      by (simp add: first_left_def unwrapped_def split: option.splits)
  qed
qed

text \<open>
  The fail-slow loop: while no error has been seen it unwraps fields into \<open>result\<close>;
  from the first Left field on it only appends Left payloads to \<open>errors\<close>.
\<close>

lemma liftPropsCollect_loop_spec:
  assumes d: "distinct (map fst input)"
  shows "set rest \<subseteq> set input \<Longrightarrow> distinct (map fst (own result) @ map fst rest) \<Longrightarrow>
         ''__proto__'' \<notin> set (map fst rest) \<Longrightarrow> proto result = ObjectPrototype \<Longrightarrow>
         liftPropsCollect_loop h input (map fst rest) result errors =
           Inr (if errors = []
                then (result\<lparr>own := own result
                          @ unwrapped (takeWhile (\<lambda>p. \<not> isLeft (snd p)) rest)\<rparr>,
                      all_lefts rest)
                else (result, errors @ all_lefts rest))"
proof (induction rest arbitrary: result errors)
  case Nil
  then show ?case by (simp add: all_lefts_def unwrapped_def)
next
  case (Cons p rest)
  obtain k v where p: "p = (k, v)" by (cases p)
  from Cons.prems(1) p have "(k, v) \<in> set input" by simp
  then have look: "get_prop input k = Some v"
    by (rule get_prop_mem [OF d])
  have sub: "set rest \<subseteq> set input"
    using Cons.prems(1) by simp
  have keep: "distinct (map fst (own result) @ map fst rest)"
    using Cons.prems(2) by simp
  have rest_plain: "''__proto__'' \<notin> set (map fst rest)"
    using Cons.prems(3) by simp
  note pr = Cons.prems(4)
  show ?case
  proof (cases "isLeft v")
    case True
    show ?thesis
      using True look p Cons.IH [OF sub keep rest_plain pr, of "errors @ [value_left v]"]
      by (simp add: all_lefts_def unwrapped_def)
  next
    case False
    show ?thesis
    proof (cases "errors = []")
      case True
      let ?next = "result\<lparr>own := own result @ [(k, value_right v)]\<rparr>"
      from Cons.prems(2) p have fresh: "k \<notin> set (map fst (own result))" by simp
      from Cons.prems(3) p have plain: "k \<noteq> ''__proto__''" by auto
      have step: "set_prop h result k (value_right v) = Inr ?next"
        using fresh pr plain by (rule set_prop_fresh)
      have dist: "distinct (map fst (own ?next) @ map fst rest)"
        using Cons.prems(2) p by simp
      have pr': "proto ?next = ObjectPrototype"
        using pr by simp
      show ?thesis
        using True False look p step Cons.IH [OF sub dist rest_plain pr', of "[]"]
        by (simp add: all_lefts_def unwrapped_def)
    next
      case nonempty: False
      show ?thesis
        using nonempty False look p Cons.IH [OF sub keep rest_plain pr, of errors]
        by (simp add: all_lefts_def unwrapped_def)
    qed
  qed
qed

lemma all_lefts_Nil_takeWhile:
  "all_lefts input = [] \<Longrightarrow> takeWhile (\<lambda>p. \<not> isLeft (snd p)) input = input"
  by (simp add: all_lefts_def filter_empty_conv)

text \<open>
  Claim C3 as stated (for every record, the fields taken in declaration order) fails in
  two ways. For \<open>{b: Left("x"), 1: Left("y")}\<close> the key \<open>1\<close> is an array index and is
  enumerated first: \<open>liftProps\<close> returns \<open>Left("y")\<close>, not the first declared Left,
  and \<open>liftPropsCollect\<close> returns \<open>Left(["y", "x"])\<close>. For a record with the one
  field \<open>__proto__: Right(1)\<close> the assignment to \<open>result\<close> reaches the setter of
  \<open>Object.prototype\<close> and creates no field: the result is Right of the empty record,
  not of the unwrapped one.
\<close>

theorem record_lifters_counterexample:
  "liftProps primitive_host [(''b'', Left ''x''), (''1'', Left ''y'') :: string \<times> (string, int) either]
     = Inr (Left ''y'')
   \<and> first_left [(''b'', Left ''x''), (''1'', Left ''y'') :: string \<times> (string, int) either]
     = Some (Left ''x'')
   \<and> liftPropsCollect primitive_host
       [(''b'', Left ''x''), (''1'', Left ''y'') :: string \<times> (string, int) either]
     = Inr (Left [''y'', ''x''])
   \<and> all_lefts [(''b'', Left ''x''), (''1'', Left ''y'') :: string \<times> (string, int) either]
     = [''x'', ''y'']
   \<and> liftProps primitive_host [(''__proto__'', Right (1::int)) :: string \<times> (string, int) either]
     = Inr (Right \<lparr>own = [], proto = ObjectPrototype\<rparr>)
   \<and> unwrapped [(''__proto__'', Right (1::int)) :: string \<times> (string, int) either]
     = [(''__proto__'', 1)]"
  by (simp add: liftProps_def liftPropsCollect_def Object_keys_def is_array_index_def
      is_digit_def numeric_value_def digit_value_def get_prop_def isLeft_simps first_left_def
      all_lefts_def unwrapped_def set_prop_def empty_object_def primitive_host_def)

text \<open>
  Claim C3, amended. For every record with distinct field names, none of them
  \<open>__proto__\<close>, and with the fields taken in the order in which \<open>Object.keys\<close>
  enumerates them (array-index names first, in ascending numeric order, then the other
  names in declaration order; for a record without array-index names this is declaration
  order): \<open>liftProps\<close> returns the first Left field, and Right of the unwrapped record
  when no field is Left; \<open>liftPropsCollect\<close> returns Left of the payloads of all Left
  fields, in that order, when there is one, and Right of the unwrapped record otherwise.
\<close>

theorem record_lifters:
  assumes "distinct (map fst input)" and "''__proto__'' \<notin> set (map fst input)"
  shows "liftProps h input =
           Inr (case first_left (enumerated input) of
                  Some l \<Rightarrow> Left (value_left l)
                | None \<Rightarrow> Right \<lparr>own = unwrapped (enumerated input), proto = ObjectPrototype\<rparr>)
         \<and> liftPropsCollect h input =
           Inr (if all_lefts (enumerated input) = []
                then Right \<lparr>own = unwrapped (enumerated input), proto = ObjectPrototype\<rparr>
                else Left (all_lefts (enumerated input)))
         \<and> map fst (enumerated input) = Object_keys input
         \<and> (list_all (\<lambda>p. \<not> is_array_index (fst p)) input \<longrightarrow> enumerated input = input)"
proof -
  note d = assms(1)
  have sub: "set (enumerated input) \<subseteq> set input"
    by (simp add: set_enumerated)
  have dist: "distinct (map fst (own (empty_object :: 'b object)) @ map fst (enumerated input))"
    using distinct_enumerated [OF d] by (simp add: empty_object_def)
  have plain: "''__proto__'' \<notin> set (map fst (enumerated input))"
    using assms(2) by (simp add: set_enumerated)
  have pr: "proto (empty_object :: 'b object) = ObjectPrototype"
    by (simp add: empty_object_def)
  have fast: "liftProps h input =
           Inr (case first_left (enumerated input) of
                  Some l \<Rightarrow> Left (value_left l)
                | None \<Rightarrow> Right \<lparr>own = unwrapped (enumerated input), proto = ObjectPrototype\<rparr>)"
    using liftProps_loop_spec [OF d sub dist plain pr, of h]
    by (simp add: liftProps_def Object_keys_enumerated empty_object_def split: option.splits)
  have slow: "liftPropsCollect h input =
           Inr (if all_lefts (enumerated input) = []
                then Right \<lparr>own = unwrapped (enumerated input), proto = ObjectPrototype\<rparr>
                else Left (all_lefts (enumerated input)))"
    using liftPropsCollect_loop_spec [OF d sub dist plain pr, of h "[]"]
    by (simp add: liftPropsCollect_def Object_keys_enumerated empty_object_def
        all_lefts_Nil_takeWhile)
  have keys: "map fst (enumerated input) = Object_keys input"
    by (simp add: Object_keys_enumerated)
  have same: "list_all (\<lambda>p. \<not> is_array_index (fst p)) input \<longrightarrow> enumerated input = input"
    by (simp add: enumerated_plain_names)
  from fast slow keys same show ?thesis by blast
qed

text \<open>
  Claim C3 at the record \<open>{a: Left("x"), b: Left("y"), c: Right(1)}\<close>: \<open>liftProps\<close> gives
  \<open>Left("x")\<close> and \<open>liftPropsCollect\<close> gives \<open>Left(["x", "y"])\<close>.
\<close>

theorem record_lifters_witness:
  "distinct (map fst [(''a'', Left ''x''), (''b'', Left ''y''), (''c'', Right (1::int))])
   \<and> ''__proto__'' \<notin> set (map fst [(''a'', Left ''x''), (''b'', Left ''y''), (''c'', Right (1::int))])
   \<and> list_all (\<lambda>p. \<not> is_array_index (fst p))
        [(''a'', Left ''x''), (''b'', Left ''y''), (''c'', Right (1::int))]
   \<and> liftProps primitive_host [(''a'', Left ''x''), (''b'', Left ''y''), (''c'', Right (1::int))]
       = Inr (Left ''x'')
   \<and> liftPropsCollect primitive_host
        [(''a'', Left ''x''), (''b'', Left ''y''), (''c'', Right (1::int))]
       = Inr (Left [''x'', ''y''])"
proof -
  let ?r = "[(''a'', Left ''x''), (''b'', Left ''y''), (''c'', Right (1::int))]"
  have d: "distinct (map fst ?r)" by simp
  have p: "''__proto__'' \<notin> set (map fst ?r)" by simp
  have n: "list_all (\<lambda>p. \<not> is_array_index (fst p)) ?r"
    by (simp add: is_array_index_def is_digit_def)
  from record_lifters [OF d p, of primitive_host] n
  have "enumerated ?r = ?r"
    and "liftProps primitive_host ?r =
           Inr (case first_left (enumerated ?r) of
                  Some l \<Rightarrow> Left (value_left l)
                | None \<Rightarrow> Right \<lparr>own = unwrapped (enumerated ?r), proto = ObjectPrototype\<rparr>)"
    and "liftPropsCollect primitive_host ?r =
           Inr (if all_lefts (enumerated ?r) = []
                then Right \<lparr>own = unwrapped (enumerated ?r), proto = ObjectPrototype\<rparr>
                else Left (all_lefts (enumerated ?r)))"
    by blast+
  then show ?thesis
    using d p n by (simp add: first_left_def all_lefts_def isLeft_simps)
qed

text \<open>
  Claim C9. For the record with no fields, \<open>liftProps\<close> and \<open>liftPropsCollect\<close> both
  return Right of the empty record.
\<close>

theorem lift_empty_record:
  "liftProps h ([] :: ('e, 'v) either props) = Inr (Right \<lparr>own = [], proto = ObjectPrototype\<rparr>)
   \<and> liftPropsCollect h ([] :: ('e, 'v) either props)
       = Inr (Right \<lparr>own = [], proto = ObjectPrototype\<rparr>)"
  by (simp add: liftProps_def liftPropsCollect_def Object_keys_def empty_object_def)


section \<open>Which operations throw\<close>

text \<open>
  Every caller-supplied function that never throws is of the form \<open>returning f\<close>.
\<close>

lemma returning_complete:
  assumes "\<And>x s. returns_normally (fst (c x s))"
  shows "c = returning (\<lambda>x s. (projr (fst (c x s)), snd (c x s)))"
proof (intro ext)
  fix x s
  from assms [of x s] obtain y where "fst (c x s) = Inr y"
    by (cases "fst (c x s)") (simp_all add: returns_normally_def)
  then show "c x s = returning (\<lambda>x s. (projr (fst (c x s)), snd (c x s))) x s"
    by (cases "c x s") (simp add: returning_def)
qed





























section \<open>lift2 against apply after map\<close>

text \<open>
  Claim C10 as stated (equality for every curried \<open>f\<close>) fails.
  \<open>apply(map(f)(a))(b)\<close> first runs \<open>map(f)(a)\<close>, which calls \<open>f\<close> on the payload of a
  Right \<open>a\<close>, and only then looks at \<open>b\<close>; \<open>lift2(f)(a)(b)\<close> looks at \<open>a\<close> and \<open>b\<close>
  before it calls \<open>f\<close>. With \<open>a = Right(1)\<close>, \<open>b = Left("e")\<close> and an \<open>f\<close> that throws
  when called, \<open>lift2\<close> returns \<open>Left("e")\<close> and the composition throws.
\<close>

theorem lift2_apply_map_counterexample:
  "lift2 (\<lambda>x. throw_js (Error ''boom'')) (Right (1::int)) (Left ''e'' :: (string, int) either) ()
     = (Inr (Left ''e'' :: (string, int) either), ())
   \<and> bind_js (map' (\<lambda>x. throw_js (Error ''boom'')) (Right (1::int)))
        (\<lambda>wf. apply' wf (Left ''e'' :: (string, int) either)) ()
     = (Inl (Error ''boom'') :: error + (string, int) either, ())
   \<and> lift2 (\<lambda>x. throw_js (Error ''boom'')) (Right (1::int)) (Left ''e'' :: (string, int) either) ()
     \<noteq> (bind_js (map' (\<lambda>x. throw_js (Error ''boom'')) (Right (1::int)))
          (\<lambda>wf. apply' wf (Left ''e'' :: (string, int) either)) ()
        :: (error + (string, int) either) \<times> unit)"
  by (simp add: lift2_def isLeft_simps map_Right bind_js_def return_js_def throw_js_def)

lemma lift2_Left_first: "lift2 g (Left x) b = bind_js (map' g (Left x)) (\<lambda>wf. apply' wf b)"
  by (simp add: lift2_def isLeft_simps isRight_simps map_Left apply'_def bind_return_left)

lemma lift2_Right_second:
  "lift2 g a (Right y) = bind_js (map' g a) (\<lambda>wf. apply' wf (Right y))"
  by (cases a)
    (simp_all add: lift2_def isLeft_simps isRight_simps map_Right map_Left apply'_def
      bind_return_left bind_assoc)

lemma lift2_Right_Left: "lift2 g (Right x) (Left y) s = (Inr (Left y), s)"
  by (simp add: lift2_def isLeft_simps return_js_def)

lemma apply_map_Right_Left:
  "bind_js (map' g (Right x)) (\<lambda>wf. apply' wf (Left y)) s =
     (case g x s of
        (Inl err, s') \<Rightarrow> (Inl err, s')
      | (Inr second, s') \<Rightarrow> (Inr (Left y), s'))"
  by (simp add: map_Right apply'_def isRight_simps map_Left bind_js_def return_js_def
      split: prod.splits sum.splits)

text \<open>
  Claim C10, amended. For every curried \<open>f\<close> whose first call \<open>f(x)\<close> does not throw
  (it may change the state, and the function it returns may do anything), and all Either
  values \<open>a\<close> and \<open>b\<close>, \<open>lift2(f)(a)(b)\<close> and \<open>apply(map(f)(a))(b)\<close> have the same
  outcome: the same returned Either, or the same error thrown by the second call. For an
  arbitrary \<open>f\<close> the two are the same computation whenever \<open>a\<close> is Left or \<open>b\<close> is
  Right. When \<open>a\<close> is \<open>Right(x)\<close> and \<open>b\<close> is \<open>Left(y)\<close>, \<open>lift2\<close> returns \<open>Left(y)\<close>
  without calling \<open>f\<close>, while \<open>apply(map(f)(a))(b)\<close> calls \<open>f(x)\<close> first: it throws
  what \<open>f(x)\<close> throws, and otherwise returns \<open>Left(y)\<close> after the effects of \<open>f(x)\<close>.
\<close>

theorem lift2_apply_map:
  "fst (lift2 (returning f) a b s) = fst (bind_js (map' (returning f) a) (\<lambda>wf. apply' wf b) s)
   \<and> lift2 g (Left x) b = bind_js (map' g (Left x)) (\<lambda>wf. apply' wf b)
   \<and> lift2 g a (Right y) = bind_js (map' g a) (\<lambda>wf. apply' wf (Right y))
   \<and> lift2 g (Right x') (Left y') s = (Inr (Left y'), s)
   \<and> bind_js (map' g (Right x')) (\<lambda>wf. apply' wf (Left y')) s =
       (case g x' s of
          (Inl err, s') \<Rightarrow> (Inl err, s')
        | (Inr second, s') \<Rightarrow> (Inr (Left y'), s'))"
proof -
  have outcome: "fst (lift2 (returning f) a b s)
      = fst (bind_js (map' (returning f) a) (\<lambda>wf. apply' wf b) s)"
  proof (cases a)
    case (Left u)
    then show ?thesis by (simp add: lift2_Left_first)
  next
    case (Right u)
    show ?thesis
    proof (cases b)
      case (Left w)
      with Right show ?thesis
        by (simp add: lift2_Right_Left apply_map_Right_Left returning_def)
    next
      case b: (Right w)
      with Right show ?thesis by (simp add: lift2_Right_second)
    qed
  qed
  from outcome lift2_Left_first [of g x b] lift2_Right_second [of g a y]
    lift2_Right_Left [of g x' y' s] apply_map_Right_Left [of g x' y' s]
  show ?thesis by blast
qed


end
